theory Spec2Isabelle
  imports Main "HOL-Library.Word"
begin

section \<open>MPTCP CMT/RPv2 congestion control (net/mptcp/mptcp_cmtrpv2.c)\<close>

subsection \<open>Data model\<close>

type_synonym u32 = "32 word"
type_synonym u64 = "64 word"

text \<open>
  A \<open>struct sock *\<close> is an address. \<open>tcp_sk(sk)\<close> is a cast, so the same address
  also names the \<open>struct tcp_sock\<close>. A \<open>struct mptcp_cb *\<close> is an address too, and
  \<open>NULL\<close> is \<open>None\<close>.
\<close>

type_synonym sock = nat
type_synonym mptcp_cb = nat

text \<open>
  The fields of \<open>struct tcp_sock\<close> that the file reads or writes. The window and timing
  fields are \<open>u32\<close>. Three entries stand for collaborators that are not in the file:
  \<^item> \<open>mpc\<close> is what \<open>mptcp(tp)\<close> returns;
  \<^item> \<open>sk_can_send\<close> is what \<open>mptcp_sk_can_send(sk)\<close> returns;
  \<^item> \<open>cwnd_limited\<close> is what \<open>tcp_is_cwnd_limited(sk)\<close> returns.

  Modelled from the spec: the three predicates \<open>mptcp\<close>, \<open>mptcp_sk_can_send\<close> and
  \<open>tcp_is_cwnd_limited\<close> are missing from the source file; the spec gives them as
  per-call boolean inputs read from the transport collaborator ("is multipath active",
  "actively able to send", "is cwnd-limited"), so each is one boolean of the socket.

  \<open>ca_increase\<close> is the private area \<open>inet_csk_ca(sk)\<close>, which this file uses as a
  \<open>struct mptcp_cmtrpv2\<close> with its single \<open>u64 increase\<close>.
\<close>

record tcp_sock =
  snd_cwnd :: u32
  snd_ssthresh :: u32
  snd_cwnd_cnt :: u32
  snd_cwnd_clamp :: u32
  srtt_us :: u32
  mss_cache :: u32
  sacked_out :: u32
  mpcb :: "mptcp_cb option"
  meta_sk :: sock
  mpc :: bool
  sk_can_send :: bool
  cwnd_limited :: bool
  ca_increase :: u64

text \<open>
  The memory the file works on: the sockets by address, the subflow list of every
  \<open>mptcp_cb\<close> (what \<open>mptcp_for_each_sk\<close> walks), and the file-level
  \<open>static int snd_buffer\<close>. The latter is one 32-bit cell for the whole module; it is
  kept as a 32-bit pattern and read as signed with \<open>sint\<close>.
\<close>

record kstate =
  socks :: "sock \<Rightarrow> tcp_sock"
  connection_list :: "mptcp_cb \<Rightarrow> sock list"
  snd_buffer :: "32 word"

text \<open>\<open>static int rpv2_scale = 32; static int dup_acks_rtx = 3;\<close> Nothing writes them.\<close>

definition rpv2_scale :: nat where
  "rpv2_scale = 32"

definition dup_acks_rtx :: u32 where
  "dup_acks_rtx = 3"

subsection \<open>Helpers of the kernel that the file calls\<close>

text \<open>
  Modelled from the spec: \<open>div64_u64\<close> is missing from the source file; the spec calls
  it "integer (fixed-point) division" of the scaled window by the round-trip time, here
  on 64-bit unsigned values.
\<close>

definition div64_u64 :: "u64 \<Rightarrow> u64 \<Rightarrow> u64" where
  "div64_u64 dividend divisor = dividend div divisor"

text \<open>
  Modelled from the spec: the macro \<open>DIV_ROUND_UP\<close> is missing from the source file; the
  spec calls it "round-up integer division", \<open>ceil(n / d)\<close>. The quotient is the exact
  ceiling of the two unsigned values, stored in the operands' type; an intermediate sum
  that a particular expansion of the macro might overflow is not part of this model.
\<close>

definition DIV_ROUND_UP :: "'a::len word \<Rightarrow> 'a word \<Rightarrow> 'a word" where
  "DIV_ROUND_UP n d = word_of_nat ((unat n + unat d - 1) div unat d)"

text \<open>
  Modelled from the spec: \<open>mptcp_meta_sk\<close> is missing from the source file; it gives the
  connection-level (meta) socket of a socket. The file reads the same pointer directly as
  \<open>tp->meta_sk\<close> in \<open>mptcp_cmtrpv2_slow_start\<close>, so it is that field.
\<close>

definition mptcp_meta_sk :: "kstate \<Rightarrow> sock \<Rightarrow> sock" where
  "mptcp_meta_sk st sk = meta_sk (socks st sk)"

subsection \<open>The functions of the file\<close>

definition mptcp_cmtrpv2_sk_can_send :: "kstate \<Rightarrow> sock \<Rightarrow> bool" where
  "mptcp_cmtrpv2_sk_can_send st sk =
     (sk_can_send (socks st sk) \<and> srtt_us (socks st sk) \<noteq> 0)"

definition mptcp_cmtrpv2_scale :: "u32 \<Rightarrow> nat \<Rightarrow> u64" where
  "mptcp_cmtrpv2_scale val scale = push_bit scale (ucast val :: u64)"

definition mptcp_set_increase_ratio :: "kstate \<Rightarrow> sock \<Rightarrow> u64 \<Rightarrow> kstate" where
  "mptcp_set_increase_ratio st meta increase =
     st\<lparr>socks := (socks st)(meta := (socks st meta)\<lparr>ca_increase := increase\<rparr>)\<rparr>"

definition mptcp_get_increase_ratio :: "kstate \<Rightarrow> sock \<Rightarrow> u64" where
  "mptcp_get_increase_ratio st meta = ca_increase (socks st meta)"

text \<open>
  The loop \<open>mptcp_for_each_sk(mpcb, sub_sk) { ... total_bandwidth += ... }\<close>, which both
  calculators contain, with the running sum as an argument.
\<close>

fun sum_bandwidth :: "kstate \<Rightarrow> sock list \<Rightarrow> u64 \<Rightarrow> u64" where
  "sum_bandwidth st [] total_bandwidth = total_bandwidth"
| "sum_bandwidth st (sub_sk # rest) total_bandwidth =
     (if \<not> mptcp_cmtrpv2_sk_can_send st sub_sk
      then sum_bandwidth st rest total_bandwidth
      else sum_bandwidth st rest
             (total_bandwidth +
              div64_u64 (mptcp_cmtrpv2_scale (snd_cwnd (socks st sub_sk)) rpv2_scale)
                        (ucast (srtt_us (socks st sub_sk)))))"

definition mptcp_cmtrpv2_calc_increase_ratio :: "kstate \<Rightarrow> sock \<Rightarrow> u32 \<Rightarrow> kstate" where
  "mptcp_cmtrpv2_calc_increase_ratio st sk factor =
     (case mpcb (socks st sk) of
        None \<Rightarrow> st
      | Some m \<Rightarrow>
          if factor \<noteq> 0 then
            let tp = socks st sk;
                total_bandwidth = sum_bandwidth st (connection_list st m) 0;
                denominator0 = drop_bit rpv2_scale (ucast (srtt_us tp) * total_bandwidth);
                denominator = (if denominator0 = 0 then 1 else denominator0);
                increase = DIV_ROUND_UP (ucast (snd_cwnd tp * factor) :: u64) denominator
            in mptcp_set_increase_ratio st (mptcp_meta_sk st sk) increase
          else st)"

text \<open>
  \<open>tcp_reno_ssthresh\<close> and \<open>tcp_reno_cong_avoid\<close> are the conventional single-path
  algorithm. They are not in the file, so the functions that fall back to them take them
  as arguments: \<open>reno_ssthresh\<close> returns the threshold and the memory it leaves,
  \<open>reno_cong_avoid\<close> the memory it leaves.
\<close>

type_synonym reno_ssthresh = "kstate \<Rightarrow> sock \<Rightarrow> u32 \<times> kstate"
type_synonym reno_cong_avoid = "kstate \<Rightarrow> sock \<Rightarrow> u32 \<Rightarrow> u32 \<Rightarrow> kstate"

definition mptcp_cmtrpv2_calc_ssthresh :: "reno_ssthresh \<Rightarrow> kstate \<Rightarrow> sock \<Rightarrow> u32 \<times> kstate" where
  "mptcp_cmtrpv2_calc_ssthresh tcp_reno_ssthresh st sk =
     (case mpcb (socks st sk) of
        None \<Rightarrow> tcp_reno_ssthresh st sk
      | Some m \<Rightarrow>
          let tp = socks st sk;
              total_bandwidth = sum_bandwidth st (connection_list st m) 0;
              decrease0 = DIV_ROUND_UP (drop_bit rpv2_scale (total_bandwidth * ucast (srtt_us tp))) 2;
              half = (ucast (DIV_ROUND_UP (snd_cwnd tp) 2) :: u64);
              decrease = (if half > decrease0 then half else decrease0);
              new_ssthresh =
                (if decrease < ucast (snd_cwnd tp)
                 then (ucast (ucast (snd_cwnd tp) - decrease) :: u32)
                 else 1)
          in (new_ssthresh, st))"

text \<open>
  \<open>snd_buffer += increase\<close> with \<open>int snd_buffer\<close> and \<open>u64 increase\<close>: the accumulator
  is sign-extended to 64 bits, the sum is taken in 64 bits and the low 32 bits are
  stored back.
\<close>

definition snd_buffer_add :: "32 word \<Rightarrow> u64 \<Rightarrow> 32 word" where
  "snd_buffer_add buf increase = ucast ((scast buf :: u64) + increase)"

text \<open>
  \<open>snd_buffer >= tp->mss_cache\<close> compares an \<open>int\<close> with a \<open>u32\<close>: the accumulator is
  converted to unsigned, which is the order of words. \<open>snd_buffer -= tp->mss_cache\<close>
  is taken in 32 bits.
\<close>

definition mptcp_cmtrpv2_slow_start :: "kstate \<Rightarrow> sock \<Rightarrow> u32 \<Rightarrow> u32 \<times> kstate" where
  "mptcp_cmtrpv2_slow_start st tp acked =
     (let cwnd0 = snd_cwnd (socks st tp) + acked;
          cwnd = (if cwnd0 > snd_ssthresh (socks st tp)
                  then snd_ssthresh (socks st tp) + 1 else cwnd0);
          st1 = mptcp_cmtrpv2_calc_increase_ratio st (meta_sk (socks st tp))
                  (min (acked * mss_cache (socks st tp)) (mss_cache (socks st tp)));
          increase = mptcp_get_increase_ratio st1 (meta_sk (socks st1 tp));
          acked' = acked - (cwnd - snd_cwnd (socks st1 tp));
          st2 = st1\<lparr>snd_buffer := snd_buffer_add (snd_buffer st1) increase\<rparr>;
          st3 = (if snd_buffer st2 \<ge> mss_cache (socks st2 tp)
                 then st2\<lparr>socks := (socks st2)
                            (tp := (socks st2 tp)\<lparr>snd_cwnd := snd_cwnd (socks st2 tp) + 1\<rparr>),
                          snd_buffer := snd_buffer st2 - mss_cache (socks st2 tp)\<rparr>
                 else st2)
      in (acked', st3))"

definition mptcp_cmtrpv2_cong_avoid ::
  "reno_cong_avoid \<Rightarrow> kstate \<Rightarrow> sock \<Rightarrow> u32 \<Rightarrow> u32 \<Rightarrow> kstate" where
  "mptcp_cmtrpv2_cong_avoid tcp_reno_cong_avoid st sk ack acked =
     (if \<not> mpc (socks st sk) then tcp_reno_cong_avoid st sk ack acked
      else if \<not> cwnd_limited (socks st sk) then st
      else if snd_cwnd (socks st sk) \<le> snd_ssthresh (socks st sk)
        then snd (mptcp_cmtrpv2_slow_start st sk acked)
      else
        let st1 = mptcp_cmtrpv2_calc_increase_ratio st sk (mss_cache (socks st sk));
            increase = mptcp_get_increase_ratio st1 (mptcp_meta_sk st1 sk);
            st2 = st1\<lparr>snd_buffer := snd_buffer_add (snd_buffer st1) increase\<rparr>;
            tp = socks st2 sk
        in if snd_cwnd_cnt tp \<ge> snd_cwnd tp then
             (if snd_buffer st2 \<ge> mss_cache tp then
                st2\<lparr>socks := (socks st2)
                       (sk := tp\<lparr>snd_cwnd := (if snd_cwnd tp < snd_cwnd_clamp tp
                                             then snd_cwnd tp + 1 else snd_cwnd tp),
                                 snd_cwnd_cnt := 0\<rparr>),
                     snd_buffer := snd_buffer st2 - mss_cache tp\<rparr>
              else st2)
           else st2\<lparr>socks := (socks st2)(sk := tp\<lparr>snd_cwnd_cnt := snd_cwnd_cnt tp + 1\<rparr>)\<rparr>)"

definition mptcp_cmtrpv2_fast_rtx :: "kstate \<Rightarrow> sock \<Rightarrow> u32 \<Rightarrow> kstate" where
  "mptcp_cmtrpv2_fast_rtx st sk ssthresh =
     (if sacked_out (socks st sk) \<ge> dup_acks_rtx
      then st\<lparr>socks := (socks st)(sk := (socks st sk)\<lparr>snd_cwnd := ssthresh\<rparr>)\<rparr>
      else st)"

definition mptcp_cmtrpv2_ssthresh :: "reno_ssthresh \<Rightarrow> kstate \<Rightarrow> sock \<Rightarrow> u32 \<times> kstate" where
  "mptcp_cmtrpv2_ssthresh tcp_reno_ssthresh st sk =
     (if \<not> mpc (socks st sk) then tcp_reno_ssthresh st sk
      else
        let (ssthresh, st1) = mptcp_cmtrpv2_calc_ssthresh tcp_reno_ssthresh st sk
        in (ssthresh, mptcp_cmtrpv2_fast_rtx st1 sk ssthresh))"

subsection \<open>Values the functions compute on the way\<close>

text \<open>
  The value of the local \<open>increase\<close> in \<open>mptcp_cmtrpv2_slow_start\<close> (lines 145-146:
  refresh the ratio through the subflow's \<open>meta_sk\<close>, then read it back) and in
  \<open>mptcp_cmtrpv2_cong_avoid\<close> (lines 179-180: refresh it through the subflow itself, read
  it from the meta socket).
\<close>

definition slow_start_increase :: "kstate \<Rightarrow> sock \<Rightarrow> u32 \<Rightarrow> u64" where
  "slow_start_increase st tp acked =
     mptcp_get_increase_ratio
       (mptcp_cmtrpv2_calc_increase_ratio st (meta_sk (socks st tp))
          (min (acked * mss_cache (socks st tp)) (mss_cache (socks st tp))))
       (meta_sk (socks st tp))"

definition cong_avoid_increase :: "kstate \<Rightarrow> sock \<Rightarrow> u64" where
  "cong_avoid_increase st sk =
     mptcp_get_increase_ratio
       (mptcp_cmtrpv2_calc_increase_ratio st sk (mss_cache (socks st sk)))
       (mptcp_meta_sk st sk)"

subsection \<open>The quantities of the specification\<close>

text \<open>Round-up integer division on the natural numbers.\<close>

definition ceil_div :: "nat \<Rightarrow> nat \<Rightarrow> nat" where
  "ceil_div n d = (n + d - 1) div d"

text \<open>
  The bandwidth estimate of one subflow, \<open>(cwnd << SCALE) / srtt\<close>, and the aggregate
  over the eligible subflows of a connection (those that can send and have a measured
  round-trip time), both in 64 bits.
\<close>

definition subflow_bandwidth :: "kstate \<Rightarrow> sock \<Rightarrow> u64" where
  "subflow_bandwidth st sub_sk =
     push_bit rpv2_scale (ucast (snd_cwnd (socks st sub_sk)) :: u64)
       div ucast (srtt_us (socks st sub_sk))"

definition total_bandwidth :: "kstate \<Rightarrow> mptcp_cb \<Rightarrow> u64" where
  "total_bandwidth st m =
     sum_list (map (subflow_bandwidth st)
       (filter (mptcp_cmtrpv2_sk_can_send st) (connection_list st m)))"

text \<open>\<open>(total_bandwidth * srtt) >> SCALE\<close>, and the same with 0 replaced by 1.\<close>

definition pooled_window :: "kstate \<Rightarrow> mptcp_cb \<Rightarrow> u32 \<Rightarrow> u64" where
  "pooled_window st m srtt = drop_bit rpv2_scale (total_bandwidth st m * ucast srtt)"

definition increase_denominator :: "kstate \<Rightarrow> mptcp_cb \<Rightarrow> u32 \<Rightarrow> u64" where
  "increase_denominator st m srtt =
     (if pooled_window st m srtt = 0 then 1 else pooled_window st m srtt)"

text \<open>A connection with exactly one eligible subflow, seen from one of its sockets.\<close>

definition one_eligible_subflow :: "kstate \<Rightarrow> sock \<Rightarrow> bool" where
  "one_eligible_subflow st sk =
     (case mpcb (socks st sk) of
        None \<Rightarrow> False
      | Some m \<Rightarrow> length (filter (mptcp_cmtrpv2_sk_can_send st) (connection_list st m)) = 1)"

subsection \<open>Concrete sockets and memories\<close>

definition sock0 :: tcp_sock where
  "sock0 = \<lparr>snd_cwnd = 0, snd_ssthresh = 0, snd_cwnd_cnt = 0, snd_cwnd_clamp = 0,
     srtt_us = 0, mss_cache = 0, sacked_out = 0, mpcb = None, meta_sk = 0, mpc = False,
     sk_can_send = False, cwnd_limited = False, ca_increase = 0\<rparr>"

text \<open>
  Two multipath connections and one plain TCP socket.
  Connection A: meta socket 1, control block 0, subflows 2 (in congestion avoidance,
  srtt 50) and 3 (in slow start, srtt 100).
  Connection B: meta socket 4, control block 1, the single subflow 5 (in slow start).
  Socket 6 is not multipath.
\<close>

definition two_connections :: kstate where
  "two_connections =
     \<lparr>socks = (\<lambda>_. sock0)
        (1 := sock0\<lparr>snd_cwnd := 2, srtt_us := 100, mss_cache := 1460,
                   mpcb := Some 0, meta_sk := 1, mpc := True\<rparr>,
         2 := sock0\<lparr>snd_cwnd := 10, snd_ssthresh := 5, snd_cwnd_clamp := 100,
                   srtt_us := 50, mss_cache := 1460, mpcb := Some 0, meta_sk := 1,
                   mpc := True, sk_can_send := True, cwnd_limited := True\<rparr>,
         3 := sock0\<lparr>snd_cwnd := 10, snd_ssthresh := 20, snd_cwnd_clamp := 100,
                   srtt_us := 100, mss_cache := 1460, mpcb := Some 0, meta_sk := 1,
                   mpc := True, sk_can_send := True, cwnd_limited := True\<rparr>,
         4 := sock0\<lparr>snd_cwnd := 6, srtt_us := 100, mss_cache := 1460,
                   mpcb := Some 1, meta_sk := 4, mpc := True\<rparr>,
         5 := sock0\<lparr>snd_cwnd := 20, snd_ssthresh := 100, snd_cwnd_clamp := 100,
                   srtt_us := 100, mss_cache := 1460, mpcb := Some 1, meta_sk := 4,
                   mpc := True, sk_can_send := True, cwnd_limited := True\<rparr>,
         6 := sock0\<lparr>snd_cwnd := 10, snd_ssthresh := 5, snd_cwnd_clamp := 100,
                   srtt_us := 100, mss_cache := 1460, cwnd_limited := True\<rparr>),
      connection_list = (\<lambda>_. [])(0 := [2, 3], 1 := [5]),
      snd_buffer = 0\<rparr>"

text \<open>Replacing one socket of a memory.\<close>

definition with_sock :: "kstate \<Rightarrow> sock \<Rightarrow> tcp_sock \<Rightarrow> kstate" where
  "with_sock st sk tp = st\<lparr>socks := (socks st)(sk := tp)\<rparr>"


definition at_clamp :: kstate where
  "at_clamp =
     (with_sock two_connections 2
        ((socks two_connections 2)\<lparr>snd_cwnd_cnt := 10, snd_cwnd_clamp := 10\<rparr>))
     \<lparr>snd_buffer := 1000\<rparr>"

definition three_sacked :: kstate where
  "three_sacked = with_sock two_connections 5 ((socks two_connections 5)\<lparr>sacked_out := 3\<rparr>)"

definition small_window :: kstate where
  "small_window = with_sock two_connections 5 ((socks two_connections 5)\<lparr>snd_cwnd := 2\<rparr>)"

definition not_limited :: kstate where
  "not_limited =
     with_sock two_connections 5 ((socks two_connections 5)\<lparr>cwnd_limited := False\<rparr>)"

definition window_at_max :: kstate where
  "window_at_max =
     (with_sock two_connections 5
        ((socks two_connections 5)\<lparr>snd_cwnd := 4294967295, snd_ssthresh := 4294967295,
                                     snd_cwnd_clamp := 4294967295\<rparr>))
     \<lparr>snd_buffer := 1459\<rparr>"


definition full_accumulator :: kstate where
  "full_accumulator = two_connections\<lparr>snd_buffer := 1459\<rparr>"

section \<open>Properties\<close>

subsection \<open>Unfolding and evaluation\<close>

lemmas model_defs =
  mptcp_cmtrpv2_cong_avoid_def mptcp_cmtrpv2_slow_start_def mptcp_cmtrpv2_ssthresh_def
  mptcp_cmtrpv2_calc_ssthresh_def mptcp_cmtrpv2_fast_rtx_def
  mptcp_cmtrpv2_calc_increase_ratio_def mptcp_cmtrpv2_sk_can_send_def
  mptcp_cmtrpv2_scale_def mptcp_set_increase_ratio_def mptcp_get_increase_ratio_def
  mptcp_meta_sk_def div64_u64_def DIV_ROUND_UP_def rpv2_scale_def dup_acks_rtx_def
  snd_buffer_add_def slow_start_increase_def cong_avoid_increase_def Let_def

lemmas state_defs = two_connections_def sock0_def with_sock_def

subsection \<open>Arithmetic of the helpers\<close>

lemma ucast_add_down: "(ucast (a + b :: u64) :: 32 word) = ucast a + ucast b"
proof -
  have "uint (ucast (a + b) :: 32 word) = take_bit 32 (uint a + uint b)"
    by (simp add: unsigned_ucast_eq uint_word_arith_bintrs)
  moreover have "uint (ucast a + ucast b :: 32 word) = take_bit 32 (uint a + uint b)"
    by (simp add: unsigned_ucast_eq uint_word_arith_bintrs take_bit_add)
  ultimately show ?thesis by (simp add: word_uint_eq_iff)
qed

lemma ucast_scast_32: "(ucast (scast (a :: 32 word) :: u64) :: 32 word) = a"
  by (rule bit_word_eqI) (simp add: bit_simps)

text \<open>The 64-bit detour of \<open>snd_buffer += increase\<close> is an addition in 32 bits.\<close>

lemma snd_buffer_add_eq: "snd_buffer_add buf inc = buf + ucast inc"
  by (simp add: snd_buffer_add_def ucast_add_down ucast_scast_32)

lemma ceil_div_le:
  fixes n d :: nat
  assumes "0 < d"
  shows "(n + d - 1) div d \<le> n"
proof -
  have "n + d - 1 \<le> n * d \<or> n = 0"
    using assms by (cases n; cases d) simp_all
  then show ?thesis
  proof
    assume "n + d - 1 \<le> n * d"
    then have "(n + d - 1) div d \<le> (n * d) div d"
      by (rule div_le_mono)
    then show ?thesis using assms by simp
  next
    assume "n = 0"
    then show ?thesis using assms by simp
  qed
qed

lemma unat_DIV_ROUND_UP:
  fixes n d :: "'a::len word"
  assumes "d \<noteq> 0"
  shows "unat (DIV_ROUND_UP n d) = ceil_div (unat n) (unat d)"
proof -
  have d: "0 < unat d" using assms by (simp add: unat_gt_0)
  have "(unat n + unat d - 1) div unat d \<le> unat n"
    using d by (rule ceil_div_le)
  then have "(unat n + unat d - 1) div unat d < 2 ^ LENGTH('a)"
    using unsigned_less[of n, where 'a=nat] by linarith
  then show ?thesis
    by (simp add: DIV_ROUND_UP_def ceil_div_def unat_of_nat)
qed

lemma unat_ucast_up_32_64: "unat (ucast (w :: u32) :: u64) = unat w"
proof -
  have "unat w < 2 ^ 32" using unsigned_less[of w, where 'a=nat] by simp
  then have "unat w < 2 ^ 64" by simp
  then show ?thesis by (simp add: unsigned_ucast_eq take_bit_nat_eq_self)
qed

lemma unat_ucast_down_64_32: "unat (x :: u64) < 2 ^ 32 \<Longrightarrow> unat (ucast x :: u32) = unat x"
  by (simp add: unsigned_ucast_eq take_bit_nat_eq_self)

subsection \<open>The bandwidth loop\<close>

text \<open>The loop adds the bandwidth estimates of the eligible subflows to its start value.\<close>

lemma sum_bandwidth_eq:
  "sum_bandwidth st xs acc =
     acc + sum_list (map (subflow_bandwidth st) (filter (mptcp_cmtrpv2_sk_can_send st) xs))"
  by (induction xs arbitrary: acc)
     (simp_all add: subflow_bandwidth_def div64_u64_def mptcp_cmtrpv2_scale_def add.assoc)

lemma sum_bandwidth_total: "sum_bandwidth st (connection_list st m) 0 = total_bandwidth st m"
  by (simp add: sum_bandwidth_eq total_bandwidth_def)

subsection \<open>What the ratio calculator leaves alone\<close>

lemma calc_increase_ratio_keeps [simp]:
  "snd_buffer (mptcp_cmtrpv2_calc_increase_ratio st sk f) = snd_buffer st"
  "connection_list (mptcp_cmtrpv2_calc_increase_ratio st sk f) = connection_list st"
  "snd_cwnd (socks (mptcp_cmtrpv2_calc_increase_ratio st sk f) x) = snd_cwnd (socks st x)"
  "snd_ssthresh (socks (mptcp_cmtrpv2_calc_increase_ratio st sk f) x) = snd_ssthresh (socks st x)"
  "snd_cwnd_cnt (socks (mptcp_cmtrpv2_calc_increase_ratio st sk f) x) = snd_cwnd_cnt (socks st x)"
  "snd_cwnd_clamp (socks (mptcp_cmtrpv2_calc_increase_ratio st sk f) x) = snd_cwnd_clamp (socks st x)"
  "mss_cache (socks (mptcp_cmtrpv2_calc_increase_ratio st sk f) x) = mss_cache (socks st x)"
  "meta_sk (socks (mptcp_cmtrpv2_calc_increase_ratio st sk f) x) = meta_sk (socks st x)"
  by (simp_all add: mptcp_cmtrpv2_calc_increase_ratio_def mptcp_set_increase_ratio_def Let_def
        split: option.split)

subsection \<open>The two growth engines as one step each\<close>

lemma slow_start_state:
  "snd (mptcp_cmtrpv2_slow_start st tp acked) =
     (let st1 = mptcp_cmtrpv2_calc_increase_ratio st (meta_sk (socks st tp))
                  (min (acked * mss_cache (socks st tp)) (mss_cache (socks st tp)));
          acc1 = snd_buffer st + ucast (slow_start_increase st tp acked);
          mss = mss_cache (socks st tp)
      in if mss \<le> acc1
         then st1\<lparr>socks := (socks st1)
                    (tp := (socks st1 tp)\<lparr>snd_cwnd := snd_cwnd (socks st tp) + 1\<rparr>),
                  snd_buffer := acc1 - mss\<rparr>
         else st1\<lparr>snd_buffer := acc1\<rparr>)"
  by (simp add: mptcp_cmtrpv2_slow_start_def slow_start_increase_def snd_buffer_add_eq Let_def)

lemma cong_avoid_state:
  assumes "mpc (socks st sk)" "cwnd_limited (socks st sk)"
      "snd_ssthresh (socks st sk) < snd_cwnd (socks st sk)"
  shows "mptcp_cmtrpv2_cong_avoid R st sk ack acked =
     (let st1 = mptcp_cmtrpv2_calc_increase_ratio st sk (mss_cache (socks st sk));
          acc1 = snd_buffer st + ucast (cong_avoid_increase st sk);
          tp = socks st1 sk
      in if snd_cwnd tp \<le> snd_cwnd_cnt tp then
           (if mss_cache tp \<le> acc1 then
              st1\<lparr>socks := (socks st1)
                     (sk := tp\<lparr>snd_cwnd := (if snd_cwnd tp < snd_cwnd_clamp tp
                                           then snd_cwnd tp + 1 else snd_cwnd tp),
                               snd_cwnd_cnt := 0\<rparr>),
                   snd_buffer := acc1 - mss_cache tp\<rparr>
            else st1\<lparr>snd_buffer := acc1\<rparr>)
         else st1\<lparr>socks := (socks st1)(sk := tp\<lparr>snd_cwnd_cnt := snd_cwnd_cnt tp + 1\<rparr>),
                  snd_buffer := acc1\<rparr>)"
  using assms
  by (simp add: mptcp_cmtrpv2_cong_avoid_def cong_avoid_increase_def snd_buffer_add_eq Let_def
        mptcp_meta_sk_def not_le)

subsection \<open>The threshold on loss\<close>

lemma calc_ssthresh_unfold:
  assumes m: "mpcb (socks st sk) = Some m"
  shows "mptcp_cmtrpv2_calc_ssthresh R st sk =
    (let cw = snd_cwnd (socks st sk);
         decrease0 = DIV_ROUND_UP (pooled_window st m (srtt_us (socks st sk))) 2;
         half = (ucast (DIV_ROUND_UP cw 2) :: u64);
         decrease = (if half > decrease0 then half else decrease0)
     in (if decrease < ucast cw then (ucast (ucast cw - decrease) :: u32) else 1, st))"
  by (simp add: mptcp_cmtrpv2_calc_ssthresh_def m sum_bandwidth_total pooled_window_def Let_def)

text \<open>
  Claim C3. On a multipath connection (the socket has a control block) and for a window
  of at least one segment, \<open>mptcp_cmtrpv2_calc_ssthresh\<close> returns \<open>cwnd - decrease\<close> if
  that is at least 1 and 1 otherwise, where \<open>decrease\<close> is the larger of
  \<open>ceil(((total_bandwidth * srtt) >> SCALE) / 2)\<close> and \<open>ceil(cwnd / 2)\<close>. The result lies
  between 1 and \<open>cwnd\<close>, and the memory is returned as it was. The pooled window
  \<open>(total_bandwidth * srtt) >> SCALE\<close> is the 64-bit quantity the code computes; the
  halving, the maximum and the subtraction are stated on the integers.
\<close>

theorem calc_ssthresh_multipath:
  assumes m: "mpcb (socks st sk) = Some m" and c1: "1 \<le> snd_cwnd (socks st sk)"
  shows "(let cwnd = unat (snd_cwnd (socks st sk));
              decrease = max (ceil_div (unat (pooled_window st m (srtt_us (socks st sk)))) 2)
                             (ceil_div cwnd 2);
              r = fst (mptcp_cmtrpv2_calc_ssthresh R st sk)
          in int (unat r) = (if int cwnd - int decrease \<ge> 1 then int cwnd - int decrease else 1)
             \<and> 1 \<le> unat r \<and> unat r \<le> cwnd
             \<and> snd (mptcp_cmtrpv2_calc_ssthresh R st sk) = st)"
proof -
  define cw where "cw = snd_cwnd (socks st sk)"
  define d0 where "d0 = DIV_ROUND_UP (pooled_window st m (srtt_us (socks st sk))) 2"
  define half where "half = (ucast (DIV_ROUND_UP cw 2) :: u64)"
  define dec where "dec = (if half > d0 then half else d0)"
  define D where "D = max (ceil_div (unat (pooled_window st m (srtt_us (socks st sk)))) 2)
                             (ceil_div (unat cw) 2)"
  have cwpos: "1 \<le> unat cw" using c1 by (simp add: cw_def word_le_nat_alt)
  have ud0: "unat d0 = ceil_div (unat (pooled_window st m (srtt_us (socks st sk)))) 2"
    by (simp add: d0_def unat_DIV_ROUND_UP)
  have uhalf: "unat half = ceil_div (unat cw) 2"
    by (simp add: half_def unat_ucast_up_32_64 unat_DIV_ROUND_UP)
  have udec: "unat dec = D"
    by (simp add: dec_def D_def ud0 uhalf word_less_nat_alt max_def)
  have res: "mptcp_cmtrpv2_calc_ssthresh R st sk =
      (if dec < ucast cw then (ucast (ucast cw - dec) :: u32) else 1, st)"
    by (simp add: calc_ssthresh_unfold[OF m] Let_def cw_def d0_def half_def dec_def)
  have lt: "dec < ucast cw \<longleftrightarrow> D < unat cw"
    by (simp add: word_less_nat_alt udec unat_ucast_up_32_64)
  have sub: "unat (ucast (ucast cw - dec :: u64) :: u32) = unat cw - D" if "D < unat cw"
  proof -
    have le: "dec \<le> ucast cw" using that lt by simp
    have "unat (ucast cw - dec :: u64) = unat cw - D"
      using le by (simp add: unat_sub udec unat_ucast_up_32_64)
    moreover have "unat cw - D < 2 ^ 32"
      using unsigned_less[of cw, where 'a=nat] by simp
    ultimately show ?thesis by (simp add: unat_ucast_down_64_32)
  qed
  define r where "r = fst (mptcp_cmtrpv2_calc_ssthresh R st sk)"
  have r: "unat r = (if D < unat cw then unat cw - D else 1)"
    using sub lt by (simp add: r_def res)
  have a: "int (unat r) = (if int (unat cw) - int D \<ge> 1 then int (unat cw) - int D else 1)"
    unfolding r by (cases "D < unat cw") (simp_all del: of_nat_unat)
  have b: "1 \<le> unat r \<and> unat r \<le> unat cw"
    unfolding r using cwpos by (cases "D < unat cw") simp_all
  have c: "snd (mptcp_cmtrpv2_calc_ssthresh R st sk) = st"
    by (simp add: res)
  show ?thesis
    unfolding Let_def cw_def[symmetric] D_def[symmetric] r_def[symmetric]
    using a b c by blast
qed

text \<open>
  Subflow 2 of connection A: the pooled window is 14, so the decrease is
  \<open>max 7 5 = 7\<close> and the threshold \<open>10 - 7 = 3\<close>.
\<close>

theorem calc_ssthresh_multipath_witness:
  "mpcb (socks two_connections 2) = Some 0 \<and> 1 \<le> snd_cwnd (socks two_connections 2)
   \<and> unat (snd_cwnd (socks two_connections 2)) = 10
   \<and> unat (pooled_window two_connections 0 (srtt_us (socks two_connections 2))) = 14
   \<and> (\<forall>R. unat (fst (mptcp_cmtrpv2_calc_ssthresh R two_connections 2)) = 3
         \<and> snd (mptcp_cmtrpv2_calc_ssthresh R two_connections 2) = two_connections)"
proof -
  have m: "mpcb (socks two_connections 2) = Some 0"
    by (simp add: state_defs)
  have c1: "1 \<le> snd_cwnd (socks two_connections 2)"
    by (simp add: state_defs)
  have cw: "unat (snd_cwnd (socks two_connections 2)) = 10"
    by (simp add: state_defs)
  have pw: "unat (pooled_window two_connections 0 (srtt_us (socks two_connections 2))) = 14"
    by (simp add: state_defs pooled_window_def total_bandwidth_def subflow_bandwidth_def
          mptcp_cmtrpv2_sk_can_send_def rpv2_scale_def)
  have v: "unat (fst (mptcp_cmtrpv2_calc_ssthresh R two_connections 2)) = 3
           \<and> snd (mptcp_cmtrpv2_calc_ssthresh R two_connections 2) = two_connections" for R
    using calc_ssthresh_multipath[OF m c1, of R]
    by (simp add: Let_def cw pw ceil_div_def del: of_nat_unat)
  show ?thesis using m c1 cw pw v by blast
qed

subsection \<open>Slow start\<close>






subsection \<open>Congestion avoidance\<close>

text \<open>
  Claim C9. In a congestion-avoidance call (multipath, window-limited, window above the
  threshold) where \<open>cwnd_cnt\<close> has reached the window, the accumulator after the
  addition is at least one \<open>mss\<close> and the window has reached its clamp, the call takes
  one \<open>mss\<close> from the accumulator and resets \<open>cwnd_cnt\<close> to 0, and the window stays as it
  was.
\<close>

theorem cong_avoid_at_clamp:
  assumes "mpc (socks st sk)" "cwnd_limited (socks st sk)"
      "snd_ssthresh (socks st sk) < snd_cwnd (socks st sk)"
      "snd_cwnd (socks st sk) \<le> snd_cwnd_cnt (socks st sk)"
      "snd_cwnd_clamp (socks st sk) \<le> snd_cwnd (socks st sk)"
      "mss_cache (socks st sk) \<le> snd_buffer st + ucast (cong_avoid_increase st sk)"
  shows "(let st' = mptcp_cmtrpv2_cong_avoid R st sk ack acked
          in snd_buffer st' =
               snd_buffer st + ucast (cong_avoid_increase st sk) - mss_cache (socks st sk)
             \<and> snd_cwnd_cnt (socks st' sk) = 0
             \<and> snd_cwnd (socks st' sk) = snd_cwnd (socks st sk))"
  using assms by (simp add: cong_avoid_state Let_def not_less)

text \<open>
  In \<open>at_clamp\<close> subflow 2 has window 10, clamp 10 and \<open>cwnd_cnt\<close> 10; the ratio is 1043,
  so the accumulator goes from 1000 to 2043 and then to 583, while the window stays 10.
\<close>

theorem cong_avoid_at_clamp_witness:
  "mpc (socks at_clamp 2) \<and> cwnd_limited (socks at_clamp 2)
   \<and> snd_ssthresh (socks at_clamp 2) < snd_cwnd (socks at_clamp 2)
   \<and> snd_cwnd (socks at_clamp 2) \<le> snd_cwnd_cnt (socks at_clamp 2)
   \<and> snd_cwnd_clamp (socks at_clamp 2) \<le> snd_cwnd (socks at_clamp 2)
   \<and> mss_cache (socks at_clamp 2) \<le> snd_buffer at_clamp + ucast (cong_avoid_increase at_clamp 2)
   \<and> (\<forall>R. snd_buffer (mptcp_cmtrpv2_cong_avoid R at_clamp 2 0 1) = 583
         \<and> snd_cwnd_cnt (socks (mptcp_cmtrpv2_cong_avoid R at_clamp 2 0 1) 2) = 0
         \<and> snd_cwnd (socks (mptcp_cmtrpv2_cong_avoid R at_clamp 2 0 1) 2) = 10)"
proof -
  have h1: "mpc (socks at_clamp 2)" "cwnd_limited (socks at_clamp 2)"
    by (simp_all add: at_clamp_def state_defs)
  have h2: "snd_ssthresh (socks at_clamp 2) < snd_cwnd (socks at_clamp 2)"
    by (simp add: at_clamp_def state_defs)
  have h3: "snd_cwnd (socks at_clamp 2) \<le> snd_cwnd_cnt (socks at_clamp 2)"
    by (simp add: at_clamp_def state_defs)
  have h4: "snd_cwnd_clamp (socks at_clamp 2) \<le> snd_cwnd (socks at_clamp 2)"
    by (simp add: at_clamp_def state_defs)
  have i: "cong_avoid_increase at_clamp 2 = 1043"
    by (simp add: at_clamp_def state_defs model_defs)
  have v: "snd_buffer at_clamp = 1000" "mss_cache (socks at_clamp 2) = 1460"
      "snd_cwnd (socks at_clamp 2) = 10"
    by (simp_all add: at_clamp_def state_defs)
  have h5: "mss_cache (socks at_clamp 2)
              \<le> snd_buffer at_clamp + ucast (cong_avoid_increase at_clamp 2)"
    by (simp add: i v)
  from cong_avoid_at_clamp[OF h1 h2 h3 h4 h5] h1 h2 h3 h4 h5
  show ?thesis by (simp add: Let_def i v)
qed

text \<open>
  The congestion-avoidance branch guards its increment with the clamp, so there the
  window never wraps: a window of at least one segment stays so.
\<close>

lemma word_succ_positive: "1 \<le> x + 1" if "x < y" for x y :: u32
  by (metis add.commute linorder_not_less max_word_max neg_eq_iff_add_eq_0
    that word_le_sub1 word_zero_le)

lemma cong_avoid_window_positive:
  assumes "mpc (socks st sk)" "cwnd_limited (socks st sk)"
      "snd_ssthresh (socks st sk) < snd_cwnd (socks st sk)"
      and "1 \<le> snd_cwnd (socks st sk)"
  shows "1 \<le> snd_cwnd (socks (mptcp_cmtrpv2_cong_avoid R st sk ack acked) sk)"
  using assms(4)
  by (simp add: cong_avoid_state[OF assms(1,2,3)] Let_def word_succ_positive)

subsection \<open>Fast retransmit\<close>

text \<open>
  Claim C6. Whenever \<open>mptcp_cmtrpv2_ssthresh\<close> runs on a multipath subflow (the flag is
  set and the socket has a control block) whose \<open>sacked_out\<close> is at least
  \<open>dup_acks_rtx = 3\<close>, it returns the newly computed threshold and leaves the window of
  that subflow equal to it, and nothing else is changed. No hypothesis relates the window
  to the old threshold: the snap does not depend on slow start or congestion avoidance.
\<close>

theorem ssthresh_fast_rtx_snap:
  assumes "mpc (socks st sk)" and "mpcb (socks st sk) = Some m"
    and "dup_acks_rtx \<le> sacked_out (socks st sk)"
  shows "(let ss = fst (mptcp_cmtrpv2_calc_ssthresh R st sk);
              st' = snd (mptcp_cmtrpv2_ssthresh R st sk)
          in dup_acks_rtx = 3
             \<and> fst (mptcp_cmtrpv2_ssthresh R st sk) = ss
             \<and> snd_cwnd (socks st' sk) = ss
             \<and> st' = with_sock st sk ((socks st sk)\<lparr>snd_cwnd := ss\<rparr>))"
  using assms
  by (simp add: mptcp_cmtrpv2_ssthresh_def mptcp_cmtrpv2_fast_rtx_def calc_ssthresh_unfold
        with_sock_def Let_def dup_acks_rtx_def split: prod.split)

text \<open>
  Subflow 5 with three sacked segments and a window of 20: the threshold comes out as 10
  and the window is 10 afterwards.
\<close>

theorem ssthresh_fast_rtx_snap_witness:
  "mpc (socks three_sacked 5) \<and> mpcb (socks three_sacked 5) = Some 1
   \<and> dup_acks_rtx \<le> sacked_out (socks three_sacked 5)
   \<and> snd_cwnd (socks three_sacked 5) = 20
   \<and> (\<forall>R. fst (mptcp_cmtrpv2_ssthresh R three_sacked 5) = 10
         \<and> snd_cwnd (socks (snd (mptcp_cmtrpv2_ssthresh R three_sacked 5)) 5) = 10)"
proof -
  have h1: "mpc (socks three_sacked 5)"
    by (simp add: three_sacked_def state_defs)
  have h2: "mpcb (socks three_sacked 5) = Some 1"
    by (simp add: three_sacked_def state_defs)
  have h3: "dup_acks_rtx \<le> sacked_out (socks three_sacked 5)"
    by (simp add: three_sacked_def state_defs dup_acks_rtx_def)
  have h4: "snd_cwnd (socks three_sacked 5) = 20"
    by (simp add: three_sacked_def state_defs)
  have v: "fst (mptcp_cmtrpv2_calc_ssthresh R three_sacked 5) = 10" for R
    by (simp add: three_sacked_def state_defs model_defs)
  from ssthresh_fast_rtx_snap[OF h1 h2 h3] h1 h2 h3 h4 v
  show ?thesis by (simp add: Let_def with_sock_def)
qed

subsection \<open>The dispatcher\<close>

text \<open>
  Claim C5, as the code has it. The test \<open>tcp_is_cwnd_limited\<close> comes before the test
  for slow start, so it guards both branches: on a multipath subflow that is
  window-limited and has \<open>cwnd \<le> ssthresh\<close>, \<open>mptcp_cmtrpv2_cong_avoid\<close> is exactly the
  slow-start engine; on one that is not window-limited it changes nothing, in slow start
  as in congestion avoidance.
\<close>

theorem cong_avoid_dispatch:
  assumes "mpc (socks st sk)"
  shows "(cwnd_limited (socks st sk) \<and> snd_cwnd (socks st sk) \<le> snd_ssthresh (socks st sk)
            \<longrightarrow> mptcp_cmtrpv2_cong_avoid R st sk ack acked
                  = snd (mptcp_cmtrpv2_slow_start st sk acked))
         \<and> (\<not> cwnd_limited (socks st sk)
            \<longrightarrow> mptcp_cmtrpv2_cong_avoid R st sk ack acked = st)"
  using assms by (simp add: mptcp_cmtrpv2_cong_avoid_def)

theorem cong_avoid_dispatch_witness:
  "mpc (socks two_connections 5) \<and> cwnd_limited (socks two_connections 5)
   \<and> snd_cwnd (socks two_connections 5) \<le> snd_ssthresh (socks two_connections 5)
   \<and> (\<forall>R. mptcp_cmtrpv2_cong_avoid R two_connections 5 0 1
            = snd (mptcp_cmtrpv2_slow_start two_connections 5 1))
   \<and> mpc (socks not_limited 5) \<and> \<not> cwnd_limited (socks not_limited 5)
   \<and> (\<forall>R. mptcp_cmtrpv2_cong_avoid R not_limited 5 0 1 = not_limited)"
proof -
  have a: "mpc (socks two_connections 5)" "cwnd_limited (socks two_connections 5)"
      "snd_cwnd (socks two_connections 5) \<le> snd_ssthresh (socks two_connections 5)"
    by (simp_all add: state_defs)
  have b: "mpc (socks not_limited 5)" "\<not> cwnd_limited (socks not_limited 5)"
    by (simp_all add: not_limited_def state_defs)
  from cong_avoid_dispatch[OF a(1)] cong_avoid_dispatch[OF b(1)] a b
  show ?thesis by simp
qed

text \<open>
  The claim as written fails: subflow 5 of \<open>not_limited\<close> is a multipath subflow in slow
  start (\<open>cwnd = 20 \<le> ssthresh = 100\<close>) that is not window-limited. The slow-start
  engine would move the accumulator from 0 to 462; the dispatcher returns the memory
  untouched.
\<close>

theorem cong_avoid_dispatch_counterexample:
  "mpc (socks not_limited 5)
   \<and> snd_cwnd (socks not_limited 5) \<le> snd_ssthresh (socks not_limited 5)
   \<and> snd_buffer not_limited = 0
   \<and> snd_buffer (snd (mptcp_cmtrpv2_slow_start not_limited 5 1)) = 462
   \<and> (\<forall>R. snd_buffer (mptcp_cmtrpv2_cong_avoid R not_limited 5 0 1) = 0)
   \<and> (\<forall>R. mptcp_cmtrpv2_cong_avoid R not_limited 5 0 1
           \<noteq> snd (mptcp_cmtrpv2_slow_start not_limited 5 1))"
proof -
  have a: "mpc (socks not_limited 5)"
      "snd_cwnd (socks not_limited 5) \<le> snd_ssthresh (socks not_limited 5)"
      "snd_buffer not_limited = 0"
    by (simp_all add: not_limited_def state_defs)
  have b: "snd_buffer (snd (mptcp_cmtrpv2_slow_start not_limited 5 1)) = 462"
    by (simp add: not_limited_def state_defs model_defs)
  have c: "snd_buffer (mptcp_cmtrpv2_cong_avoid R not_limited 5 0 1) = 0" for R
    by (simp add: not_limited_def state_defs mptcp_cmtrpv2_cong_avoid_def)
  have d: "mptcp_cmtrpv2_cong_avoid R not_limited 5 0 1
             \<noteq> snd (mptcp_cmtrpv2_slow_start not_limited 5 1)" for R
  proof
    assume "mptcp_cmtrpv2_cong_avoid R not_limited 5 0 1
              = snd (mptcp_cmtrpv2_slow_start not_limited 5 1)"
    then have "snd_buffer (mptcp_cmtrpv2_cong_avoid R not_limited 5 0 1)
              = snd_buffer (snd (mptcp_cmtrpv2_slow_start not_limited 5 1))" by simp
    then show False by (simp add: b c)
  qed
  show ?thesis using a b c d by blast
qed

subsection \<open>The single-path fallback\<close>

text \<open>
  Claim C4, as the code has it. The fallback is chosen by the flag \<open>mptcp(tp)\<close>, not by
  the number of eligible subflows: on a socket that is not multipath,
  \<open>mptcp_cmtrpv2_ssthresh\<close> and \<open>mptcp_cmtrpv2_cong_avoid\<close> are exactly the calls of the
  conventional algorithm, whatever that algorithm is.
\<close>

theorem single_path_fallback:
  assumes "\<not> mpc (socks st sk)"
  shows "mptcp_cmtrpv2_ssthresh Rs st sk = Rs st sk
         \<and> mptcp_cmtrpv2_cong_avoid Rc st sk ack acked = Rc st sk ack acked"
  using assms by (simp add: mptcp_cmtrpv2_ssthresh_def mptcp_cmtrpv2_cong_avoid_def)

theorem single_path_fallback_witness:
  "\<not> mpc (socks two_connections 6)
   \<and> (\<forall>Rs. mptcp_cmtrpv2_ssthresh Rs two_connections 6 = Rs two_connections 6)
   \<and> (\<forall>Rc. mptcp_cmtrpv2_cong_avoid Rc two_connections 6 0 1 = Rc two_connections 6 0 1)"
proof -
  have a: "\<not> mpc (socks two_connections 6)" by (simp add: state_defs)
  from single_path_fallback[OF a] a show ?thesis by simp
qed

text \<open>
  The claim as written fails. Connection B is multipath and has exactly one eligible
  subflow, socket 5, and the multipath computation runs on it.
  \<^item> \<open>two_connections\<close> and \<open>three_sacked\<close> give socket 5 the same window (20) and the
    same threshold (100); the threshold operation leaves the window at 20 in the first and
    at 10 in the second.
  \<^item> \<open>two_connections\<close> with the module's accumulator at 0 and at 1459 has the same
    sockets; the growth call leaves the window of socket 5 at 20 in the first and at 21 in
    the second.
  \<^item> With a window of 2 the threshold operation returns 1.
  No single-path algorithm that is given identical window and threshold inputs can agree
  with both runs of a pair.
\<close>

theorem single_path_fallback_counterexample:
  "one_eligible_subflow two_connections 5 \<and> one_eligible_subflow three_sacked 5
   \<and> one_eligible_subflow small_window 5
   \<and> socks (two_connections\<lparr>snd_buffer := 1459\<rparr>) = socks two_connections
   \<and> connection_list (two_connections\<lparr>snd_buffer := 1459\<rparr>) = connection_list two_connections
   \<and> snd_cwnd (socks three_sacked 5) = snd_cwnd (socks two_connections 5)
   \<and> snd_ssthresh (socks three_sacked 5) = snd_ssthresh (socks two_connections 5)
   \<and> (\<forall>R. snd_cwnd (socks (snd (mptcp_cmtrpv2_ssthresh R two_connections 5)) 5) = 20)
   \<and> (\<forall>R. snd_cwnd (socks (snd (mptcp_cmtrpv2_ssthresh R three_sacked 5)) 5) = 10)
   \<and> (\<forall>R. snd_cwnd (socks (mptcp_cmtrpv2_cong_avoid R two_connections 5 0 1) 5) = 20)
   \<and> (\<forall>R. snd_cwnd (socks (mptcp_cmtrpv2_cong_avoid R
              (two_connections\<lparr>snd_buffer := 1459\<rparr>) 5 0 1) 5) = 21)
   \<and> snd_cwnd (socks small_window 5) = 2
   \<and> (\<forall>R. fst (mptcp_cmtrpv2_ssthresh R small_window 5) = 1)"
  by (simp add: three_sacked_def small_window_def state_defs model_defs one_eligible_subflow_def)

subsection \<open>The increase ratio\<close>

lemma increase_denominator_nonzero: "increase_denominator st m srtt \<noteq> 0"
  by (simp add: increase_denominator_def)

text \<open>
  With a control block and a nonzero factor the calculator always computes the ratio
  anew, from the window and the round-trip time of the socket it is called on, and
  stores it in that socket's meta socket.
\<close>

lemma calc_ratio_recomputed:
  assumes "mpcb (socks st sk) = Some m" and "f \<noteq> 0"
  shows "mptcp_cmtrpv2_calc_increase_ratio st sk f =
           mptcp_set_increase_ratio st (meta_sk (socks st sk))
             (DIV_ROUND_UP (ucast (snd_cwnd (socks st sk) * f))
                (increase_denominator st m (srtt_us (socks st sk))))"
  using assms
  by (simp add: mptcp_cmtrpv2_calc_increase_ratio_def sum_bandwidth_total pooled_window_def
        increase_denominator_def mptcp_meta_sk_def Let_def mult.commute)

lemma get_set_increase_ratio [simp]:
  "mptcp_get_increase_ratio (mptcp_set_increase_ratio st a v) a = v"
  by (simp add: mptcp_get_increase_ratio_def mptcp_set_increase_ratio_def)

lemma unat_fresh_ratio:
  fixes c f :: u32 and d :: u64
  assumes "d \<noteq> 0" and "unat c * unat f < 2 ^ 32"
  shows "unat (DIV_ROUND_UP (ucast (c * f) :: u64) d) = ceil_div (unat c * unat f) (unat d)"
proof -
  have "unat (c * f) = unat c * unat f"
    using assms(2) unat_mult_lem[of c f] by simp
  then show ?thesis
    using assms(1) by (simp add: unat_DIV_ROUND_UP unat_ucast_up_32_64)
qed

lemma ucast_of_unat: "unat (v :: u64) = n \<Longrightarrow> (ucast v :: 32 word) = word_of_nat n"
  by auto

text \<open>The stored ratio survives the rest of a growth call.\<close>

lemma slow_start_keeps_ratio:
  "ca_increase (socks (snd (mptcp_cmtrpv2_slow_start st tp acked)) x) =
   ca_increase (socks (mptcp_cmtrpv2_calc_increase_ratio st (meta_sk (socks st tp))
      (min (acked * mss_cache (socks st tp)) (mss_cache (socks st tp)))) x)"
  by (simp add: slow_start_state Let_def)

lemma slow_start_buffer:
  "snd_buffer (snd (mptcp_cmtrpv2_slow_start st tp acked)) =
     (let acc1 = snd_buffer st + ucast (slow_start_increase st tp acked)
      in if mss_cache (socks st tp) \<le> acc1 then acc1 - mss_cache (socks st tp) else acc1)"
  by (simp add: slow_start_state Let_def)

lemma cong_avoid_keeps_ratio:
  assumes "mpc (socks st sk)" "cwnd_limited (socks st sk)"
      "snd_ssthresh (socks st sk) < snd_cwnd (socks st sk)"
  shows "ca_increase (socks (mptcp_cmtrpv2_cong_avoid R st sk ack acked) x) =
   ca_increase (socks (mptcp_cmtrpv2_calc_increase_ratio st sk (mss_cache (socks st sk))) x)"
  by (simp add: cong_avoid_state[OF assms] Let_def)

lemma cong_avoid_buffer:
  assumes "mpc (socks st sk)" "cwnd_limited (socks st sk)"
      "snd_ssthresh (socks st sk) < snd_cwnd (socks st sk)"
  shows "snd_buffer (mptcp_cmtrpv2_cong_avoid R st sk ack acked) =
     (let acc1 = snd_buffer st + ucast (cong_avoid_increase st sk)
      in if snd_cwnd (socks st sk) \<le> snd_cwnd_cnt (socks st sk)
            \<and> mss_cache (socks st sk) \<le> acc1
         then acc1 - mss_cache (socks st sk) else acc1)"
  by (simp add: cong_avoid_state[OF assms] Let_def)

text \<open>
  Claim C2, as the code has it. On a multipath connection and with a nonzero factor
  \<open>F\<close>, the ratio a growth call uses is \<open>ceil(C * F / denominator)\<close>, where
  \<open>denominator\<close> is \<open>(srtt * total_bandwidth) >> SCALE\<close> or 1 if that is 0 (in 64 bits, as
  the code computes it), provided \<open>C * F\<close> fits 32 bits. It is computed and stored in the
  meta socket before it is added to the accumulator, so neither the stored ratio nor the
  accumulator after the call depends on the ratio stored before.
  \<^item> In congestion avoidance (first part) \<open>F = mss\<close>, and \<open>C\<close> and \<open>srtt\<close> are the window and
    the round-trip time of the calling subflow.
  \<^item> In slow start (second part) \<open>F = min(acked * mss, mss)\<close>, and \<open>C\<close> and \<open>srtt\<close> are
    the window and the round-trip time of the connection's meta socket \<open>M\<close>, because the
    calculator is called on \<open>tp->meta_sk\<close>.
\<close>

theorem increase_ratio_fresh:
  "(mpc (socks st sk) \<and> cwnd_limited (socks st sk)
      \<and> snd_ssthresh (socks st sk) < snd_cwnd (socks st sk)
      \<and> mpcb (socks st sk) = Some m \<and> mss_cache (socks st sk) \<noteq> 0
      \<and> unat (snd_cwnd (socks st sk)) * unat (mss_cache (socks st sk)) < 2 ^ 32
    \<longrightarrow> (let tp = socks st sk;
              ratio = ceil_div (unat (snd_cwnd tp) * unat (mss_cache tp))
                        (unat (increase_denominator st m (srtt_us tp)));
              st' = mptcp_cmtrpv2_cong_avoid R st sk ack acked;
              acc1 = snd_buffer st + word_of_nat ratio
          in unat (cong_avoid_increase st sk) = ratio
             \<and> unat (mptcp_get_increase_ratio st' (meta_sk tp)) = ratio
             \<and> snd_buffer st' =
                 (if snd_cwnd tp \<le> snd_cwnd_cnt tp \<and> mss_cache tp \<le> acc1
                  then acc1 - mss_cache tp else acc1)))
   \<and> (let M = meta_sk (socks st tp);
           F = min (acked * mss_cache (socks st tp)) (mss_cache (socks st tp))
       in mpcb (socks st M) = Some m' \<and> meta_sk (socks st M) = M \<and> F \<noteq> 0
          \<and> unat (snd_cwnd (socks st M)) * unat F < 2 ^ 32
          \<longrightarrow> (let ratio = ceil_div (unat (snd_cwnd (socks st M)) * unat F)
                              (unat (increase_denominator st m' (srtt_us (socks st M))));
                    st' = snd (mptcp_cmtrpv2_slow_start st tp acked);
                    acc1 = snd_buffer st + word_of_nat ratio
                in unat (slow_start_increase st tp acked) = ratio
                   \<and> unat (mptcp_get_increase_ratio st' M) = ratio
                   \<and> snd_buffer st' =
                       (if mss_cache (socks st tp) \<le> acc1
                        then acc1 - mss_cache (socks st tp) else acc1)))"
proof -
  have ca: "unat (cong_avoid_increase st sk) = ratio
            \<and> unat (mptcp_get_increase_ratio (mptcp_cmtrpv2_cong_avoid R st sk ack acked)
                      (meta_sk (socks st sk))) = ratio
            \<and> snd_buffer (mptcp_cmtrpv2_cong_avoid R st sk ack acked) =
                 (if snd_cwnd (socks st sk) \<le> snd_cwnd_cnt (socks st sk)
                     \<and> mss_cache (socks st sk) \<le> snd_buffer st + word_of_nat ratio
                  then snd_buffer st + word_of_nat ratio - mss_cache (socks st sk)
                  else snd_buffer st + word_of_nat ratio)"
    if h: "mpc (socks st sk)" "cwnd_limited (socks st sk)"
        "snd_ssthresh (socks st sk) < snd_cwnd (socks st sk)"
      and m: "mpcb (socks st sk) = Some m" and f: "mss_cache (socks st sk) \<noteq> 0"
      and nw: "unat (snd_cwnd (socks st sk)) * unat (mss_cache (socks st sk)) < 2 ^ 32"
      and r: "ratio = ceil_div (unat (snd_cwnd (socks st sk)) * unat (mss_cache (socks st sk)))
                        (unat (increase_denominator st m (srtt_us (socks st sk))))"
    for ratio
  proof -
    have i: "unat (cong_avoid_increase st sk) = ratio"
      by (simp add: cong_avoid_increase_def calc_ratio_recomputed[OF m f] mptcp_meta_sk_def
            unat_fresh_ratio[OF increase_denominator_nonzero nw] r)
    have s: "mptcp_get_increase_ratio (mptcp_cmtrpv2_cong_avoid R st sk ack acked)
               (meta_sk (socks st sk)) = cong_avoid_increase st sk"
      by (simp add: mptcp_get_increase_ratio_def cong_avoid_keeps_ratio[OF h]
            cong_avoid_increase_def mptcp_meta_sk_def)
    have u: "(ucast (cong_avoid_increase st sk) :: 32 word) = word_of_nat ratio"
      using i by (rule ucast_of_unat)
    show ?thesis
      by (simp add: i s cong_avoid_buffer[OF h] Let_def u)
  qed
  have ss: "unat (slow_start_increase st tp acked) = ratio
            \<and> unat (mptcp_get_increase_ratio (snd (mptcp_cmtrpv2_slow_start st tp acked)) M)
                = ratio
            \<and> snd_buffer (snd (mptcp_cmtrpv2_slow_start st tp acked)) =
                 (if mss_cache (socks st tp) \<le> snd_buffer st + word_of_nat ratio
                  then snd_buffer st + word_of_nat ratio - mss_cache (socks st tp)
                  else snd_buffer st + word_of_nat ratio)"
    if M: "M = meta_sk (socks st tp)"
      and F: "F = min (acked * mss_cache (socks st tp)) (mss_cache (socks st tp))"
      and m: "mpcb (socks st M) = Some m'" and self: "meta_sk (socks st M) = M"
      and f: "F \<noteq> 0" and nw: "unat (snd_cwnd (socks st M)) * unat F < 2 ^ 32"
      and r: "ratio = ceil_div (unat (snd_cwnd (socks st M)) * unat F)
                              (unat (increase_denominator st m' (srtt_us (socks st M))))"
    for M F ratio
  proof -
    have c: "mptcp_cmtrpv2_calc_increase_ratio st M F =
           mptcp_set_increase_ratio st M
             (DIV_ROUND_UP (ucast (snd_cwnd (socks st M) * F))
                (increase_denominator st m' (srtt_us (socks st M))))"
      using calc_ratio_recomputed[OF m f] by (simp add: self)
    have i: "unat (slow_start_increase st tp acked) = ratio"
      by (simp add: slow_start_increase_def M[symmetric] F[symmetric] c
            unat_fresh_ratio[OF increase_denominator_nonzero nw] r)
    have s: "mptcp_get_increase_ratio (snd (mptcp_cmtrpv2_slow_start st tp acked)) M
               = slow_start_increase st tp acked"
      by (simp add: mptcp_get_increase_ratio_def slow_start_keeps_ratio
            slow_start_increase_def M[symmetric] F[symmetric])
    have u: "(ucast (slow_start_increase st tp acked) :: 32 word) = word_of_nat ratio"
      using i by (rule ucast_of_unat)
    show ?thesis
      by (simp add: i s slow_start_buffer Let_def u)
  qed
  show ?thesis
    unfolding Let_def using ca ss by blast
qed

text \<open>
  Congestion avoidance on subflow 2 (window 10, srtt 50, denominator 14): the ratio is
  \<open>ceil(14600 / 14) = 1043\<close>. Slow start on subflow 5, whose meta socket 4 has window 6
  and srtt 100 (denominator 19): the ratio is \<open>ceil(8760 / 19) = 462\<close>.
\<close>

theorem increase_ratio_fresh_witness:
  "mpc (socks two_connections 2) \<and> cwnd_limited (socks two_connections 2)
   \<and> snd_ssthresh (socks two_connections 2) < snd_cwnd (socks two_connections 2)
   \<and> mpcb (socks two_connections 2) = Some 0 \<and> mss_cache (socks two_connections 2) \<noteq> 0
   \<and> unat (snd_cwnd (socks two_connections 2)) * unat (mss_cache (socks two_connections 2))
       < 2 ^ 32
   \<and> ceil_div (unat (snd_cwnd (socks two_connections 2))
                 * unat (mss_cache (socks two_connections 2)))
         (unat (increase_denominator two_connections 0 (srtt_us (socks two_connections 2))))
       = 1043
   \<and> unat (cong_avoid_increase two_connections 2) = 1043
   \<and> (\<forall>R. unat (mptcp_get_increase_ratio
                   (mptcp_cmtrpv2_cong_avoid R two_connections 2 0 1) 1) = 1043
         \<and> snd_buffer (mptcp_cmtrpv2_cong_avoid R two_connections 2 0 1) = 1043)
   \<and> meta_sk (socks two_connections 5) = 4
   \<and> mpcb (socks two_connections 4) = Some 1 \<and> meta_sk (socks two_connections 4) = 4
   \<and> min (1 * mss_cache (socks two_connections 5)) (mss_cache (socks two_connections 5)) = 1460
   \<and> unat (snd_cwnd (socks two_connections 4)) * unat (1460 :: u32) < 2 ^ 32
   \<and> ceil_div (unat (snd_cwnd (socks two_connections 4)) * unat (1460 :: u32))
         (unat (increase_denominator two_connections 1 (srtt_us (socks two_connections 4))))
       = 462
   \<and> unat (slow_start_increase two_connections 5 1) = 462
   \<and> unat (mptcp_get_increase_ratio (snd (mptcp_cmtrpv2_slow_start two_connections 5 1)) 4)
       = 462
   \<and> snd_buffer (snd (mptcp_cmtrpv2_slow_start two_connections 5 1)) = 462"
proof -
  have a: "mpc (socks two_connections 2)" "cwnd_limited (socks two_connections 2)"
      "snd_ssthresh (socks two_connections 2) < snd_cwnd (socks two_connections 2)"
      "mpcb (socks two_connections 2) = Some 0" "mss_cache (socks two_connections 2) \<noteq> 0"
      "unat (snd_cwnd (socks two_connections 2)) * unat (mss_cache (socks two_connections 2))
         < 2 ^ 32"
    by (simp_all add: state_defs)
  have a': "snd_cwnd (socks two_connections 2) = 10" "snd_cwnd_cnt (socks two_connections 2) = 0"
      "meta_sk (socks two_connections 2) = 1" "snd_buffer two_connections = 0"
      "mss_cache (socks two_connections 5) = 1460"
    by (simp_all add: state_defs)
  have ra: "ceil_div (unat (snd_cwnd (socks two_connections 2))
                       * unat (mss_cache (socks two_connections 2)))
         (unat (increase_denominator two_connections 0 (srtt_us (socks two_connections 2))))
         = 1043"
    by (simp add: state_defs ceil_div_def increase_denominator_def pooled_window_def
          total_bandwidth_def subflow_bandwidth_def mptcp_cmtrpv2_sk_can_send_def rpv2_scale_def)
  have b: "meta_sk (socks two_connections 5) = 4"
      "mpcb (socks two_connections 4) = Some 1" "meta_sk (socks two_connections 4) = 4"
      "min (1 * mss_cache (socks two_connections 5)) (mss_cache (socks two_connections 5)) = 1460"
      "unat (snd_cwnd (socks two_connections 4)) * unat (1460 :: u32) < 2 ^ 32"
    by (simp_all add: state_defs)
  have rb: "ceil_div (unat (snd_cwnd (socks two_connections 4)) * unat (1460 :: u32))
         (unat (increase_denominator two_connections 1 (srtt_us (socks two_connections 4))))
         = 462"
    by (simp add: state_defs ceil_div_def increase_denominator_def pooled_window_def
          total_bandwidth_def subflow_bandwidth_def mptcp_cmtrpv2_sk_can_send_def rpv2_scale_def)
  have t: "unat (cong_avoid_increase two_connections 2) = 1043
    \<and> unat (mptcp_get_increase_ratio (mptcp_cmtrpv2_cong_avoid R two_connections 2 0 1) 1) = 1043
    \<and> snd_buffer (mptcp_cmtrpv2_cong_avoid R two_connections 2 0 1) = 1043
    \<and> unat (slow_start_increase two_connections 5 1) = 462
    \<and> unat (mptcp_get_increase_ratio (snd (mptcp_cmtrpv2_slow_start two_connections 5 1)) 4)
        = 462
    \<and> snd_buffer (snd (mptcp_cmtrpv2_slow_start two_connections 5 1)) = 462" for R
    using increase_ratio_fresh[where st=two_connections and sk=2 and m=0 and R=R and ack=0
        and acked=1 and tp=5 and m'=1] a b ra rb
    by (simp add: Let_def a')
  show ?thesis using a b ra rb t by blast
qed

text \<open>
  The claim as written fails in slow start. Subflow 5 is the calling subflow and has a
  window of 20; with \<open>F = 1460\<close> and the denominator 19 (the same for the round-trip time
  of the meta socket and of the subflow) the claimed ratio is
  \<open>ceil(20 * 1460 / 19) = 1537\<close>. The call uses and stores 462, the value for the window
  6 of the meta socket, and the accumulator goes from 0 to 462.
\<close>

theorem increase_ratio_fresh_counterexample:
  "mpc (socks two_connections 5) \<and> cwnd_limited (socks two_connections 5)
   \<and> snd_cwnd (socks two_connections 5) \<le> snd_ssthresh (socks two_connections 5)
   \<and> meta_sk (socks two_connections 5) = 4
   \<and> mpcb (socks two_connections 5) = Some 1 \<and> mpcb (socks two_connections 4) = Some 1
   \<and> min (1 * mss_cache (socks two_connections 5)) (mss_cache (socks two_connections 5)) = 1460
   \<and> unat (snd_cwnd (socks two_connections 5)) = 20
   \<and> ceil_div (20 * 1460)
         (unat (increase_denominator two_connections 1 (srtt_us (socks two_connections 4))))
       = 1537
   \<and> ceil_div (20 * 1460)
         (unat (increase_denominator two_connections 1 (srtt_us (socks two_connections 5))))
       = 1537
   \<and> unat (slow_start_increase two_connections 5 1) = 462
   \<and> unat (mptcp_get_increase_ratio (snd (mptcp_cmtrpv2_slow_start two_connections 5 1)) 4)
       = 462
   \<and> snd_buffer two_connections = 0
   \<and> (\<forall>R. snd_buffer (mptcp_cmtrpv2_cong_avoid R two_connections 5 0 1) = 462)"
  by (simp add: state_defs model_defs ceil_div_def increase_denominator_def pooled_window_def
          total_bandwidth_def subflow_bandwidth_def)

subsection \<open>The accumulator\<close>

lemma uint_snd_buffer_add:
  "uint (snd_buffer_add buf inc) = take_bit 32 (sint buf + uint inc)"
proof -
  have "uint (buf + ucast inc :: 32 word) = take_bit 32 (uint buf + take_bit 32 (uint inc))"
    by (simp add: uint_word_arith_bintrs unsigned_ucast_eq)
  also have "\<dots> = take_bit 32 (take_bit 32 (sint buf) + take_bit 32 (uint inc))"
    by (simp add: uint_sint)
  also have "\<dots> = take_bit 32 (sint buf + uint inc)"
    by (simp add: take_bit_add)
  finally show ?thesis by (simp add: snd_buffer_add_eq)
qed

lemma sint_snd_buffer_add:
  "sint (snd_buffer_add buf inc) = signed_take_bit 31 (sint buf + uint inc)"
proof -
  have "sint (snd_buffer_add buf inc) = signed_take_bit 31 (uint (snd_buffer_add buf inc))"
    by (simp add: sint_uint)
  also have "\<dots> = signed_take_bit 31 (sint buf + uint inc)"
    by (simp add: uint_snd_buffer_add signed_take_bit_take_bit)
  finally show ?thesis .
qed

lemma signed_take_bit_31_low:
  "signed_take_bit 31 (a + k) = signed_take_bit 31 (a + take_bit 32 k)" for a k :: int
proof -
  have "take_bit 32 (a + k) = take_bit 32 (a + take_bit 32 k)"
    by (metis take_bit_add take_bit_take_bit min.idem)
  then have "signed_take_bit 31 (take_bit 32 (a + k))
               = signed_take_bit 31 (take_bit 32 (a + take_bit 32 k))"
    by simp
  then show ?thesis by (simp add: signed_take_bit_take_bit)
qed

lemma signed_take_bit_31_wrap:
  fixes a l :: int
  assumes "0 \<le> a" "a < 2 ^ 31" "2 ^ 31 \<le> l" "l < 2 ^ 32"
  shows "signed_take_bit 31 (a + l) = a + l - 2 ^ 32"
proof -
  define x where "x = a + l + 2 ^ 31 - (2 ^ 32 :: int)"
  have x: "0 \<le> x" "x < 2 ^ 32" using assms by (simp_all add: x_def)
  have "a + l + 2 ^ 31 = x + 2 ^ 32"
    by (simp add: x_def)
  then have "(a + l + 2 ^ 31) mod (2 ^ 32 :: int) = (x + 2 ^ 32) mod 2 ^ 32"
    by (rule arg_cong)
  also have "\<dots> = x mod 2 ^ 32"
    by (rule mod_add_self2)
  also have "\<dots> = x"
    using x by (rule mod_pos_pos_trivial)
  finally have "(a + l + 2 ^ 31) mod (2 ^ 32 :: int) = x" .
  then have "take_bit (Suc 31) (a + l + 2 ^ 31) = x"
    by (simp add: take_bit_eq_mod)
  then have "signed_take_bit 31 (a + l) = x - 2 ^ 31"
    by (simp only: signed_take_bit_eq_take_bit_shift)
  then show ?thesis by (simp add: x_def)
qed

lemma bit_31_low_word:
  fixes inc :: u64
  assumes "bit inc 31"
  shows "2 ^ 31 \<le> take_bit 32 (uint inc)"
proof -
  have "bit (uint inc) 31" using assms by (simp add: bit_uint_iff)
  then have "take_bit 32 (uint inc) = 2 ^ 31 + take_bit 31 (uint inc)"
    using take_bit_Suc_from_most[of 31 "uint inc"] by simp
  moreover have "0 \<le> take_bit 31 (uint inc)" by simp
  ultimately show ?thesis by simp
qed

text \<open>
  Claim C10, as the code has it. The accumulator is a signed 32-bit integer and the ratio
  an unsigned 64-bit one; every update \<open>snd_buffer += increase\<close> leaves
  \<open>(accumulator + increase) mod 2^32\<close> read as signed. For a non-negative accumulator:
  an increase whose bit 31 is set leaves the accumulator smaller than it was, and an
  increase of at least \<open>2^31\<close> leaves it below \<open>accumulator + increase\<close>.
\<close>

theorem snd_buffer_add_wraps:
  "uint (snd_buffer_add buf inc) = (sint buf + uint inc) mod 2 ^ 32
   \<and> sint (snd_buffer_add buf inc) = signed_take_bit 31 (sint buf + uint inc)
   \<and> (0 \<le> sint buf \<and> bit inc 31 \<longrightarrow> sint (snd_buffer_add buf inc) < sint buf)
   \<and> (0 \<le> sint buf \<and> 2 ^ 31 \<le> uint inc
        \<longrightarrow> sint (snd_buffer_add buf inc) < sint buf + uint inc)"
proof -
  have a: "uint (snd_buffer_add buf inc) = (sint buf + uint inc) mod 2 ^ 32"
    by (simp add: uint_snd_buffer_add take_bit_eq_mod)
  have b: "sint (snd_buffer_add buf inc) = signed_take_bit 31 (sint buf + uint inc)"
    by (rule sint_snd_buffer_add)
  have c: "sint (snd_buffer_add buf inc) < sint buf" if "0 \<le> sint buf" "bit inc 31"
  proof -
    have l1: "2 ^ 31 \<le> take_bit 32 (uint inc)" using that(2) by (rule bit_31_low_word)
    have l2: "take_bit 32 (uint inc) < 2 ^ 32" by (rule take_bit_int_less_exp)
    have a2: "sint buf < 2 ^ 31" using sint_lt[of buf] by simp
    have "sint (snd_buffer_add buf inc)
            = signed_take_bit 31 (sint buf + take_bit 32 (uint inc))"
      using b signed_take_bit_31_low[of "sint buf" "uint inc"] by simp
    also have "\<dots> = sint buf + take_bit 32 (uint inc) - 2 ^ 32"
      using that(1) a2 l1 l2 by (rule signed_take_bit_31_wrap)
    finally show ?thesis using l2 by linarith
  qed
  have d: "sint (snd_buffer_add buf inc) < sint buf + uint inc"
    if "0 \<le> sint buf" "2 ^ 31 \<le> uint inc"
  proof -
    have "sint (snd_buffer_add buf inc) < 2 ^ 31"
      using sint_lt[of "snd_buffer_add buf inc"] by simp
    then show ?thesis using that by linarith
  qed
  show ?thesis using a b c d by blast
qed

text \<open>An accumulator of 100 and an increase of \<open>2^31\<close>: the result is \<open>100 - 2^31\<close>.\<close>

theorem snd_buffer_add_wraps_witness:
  "0 \<le> sint (100 :: 32 word) \<and> bit (2147483648 :: u64) 31
   \<and> 2 ^ 31 \<le> uint (2147483648 :: u64)
   \<and> sint (snd_buffer_add 100 2147483648) = - 2147483548
   \<and> sint (snd_buffer_add 100 2147483648) < sint (100 :: 32 word)"
proof -
  have h1: "0 \<le> sint (100 :: 32 word)" by simp
  have h2: "bit (2147483648 :: u64) 31" by (simp add: bit_iff_odd)
  have h3: "2 ^ 31 \<le> uint (2147483648 :: u64)" by simp
  have v: "sint (snd_buffer_add 100 2147483648) = - 2147483548"
    by (simp add: snd_buffer_add_eq)
  from snd_buffer_add_wraps[of 100 2147483648] h1 h2 h3 v
  show ?thesis by simp
qed

text \<open>
  The claim as written fails for its own example, "any increase with a nonzero bit at or
  above position 31". The increase \<open>2^32\<close> has bit 32 set and leaves an accumulator of 5
  at 5: neither smaller nor negative. The increase \<open>2^31\<close> has bit 31 set and takes an
  accumulator of -1 to \<open>2^31 - 1\<close>: larger than before and not negative.
\<close>

theorem snd_buffer_add_wraps_counterexample:
  "bit (4294967296 :: u64) 32 \<and> sint (5 :: 32 word) = 5
   \<and> sint (snd_buffer_add 5 4294967296) = 5
   \<and> bit (2147483648 :: u64) 31 \<and> sint (- 1 :: 32 word) = - 1
   \<and> sint (snd_buffer_add (- 1) 2147483648) = 2147483647"
  by (simp add: snd_buffer_add_eq bit_iff_odd)

subsection \<open>The window stays positive\<close>

lemma slow_start_window_positive:
  assumes "1 \<le> snd_cwnd (socks st tp)" and "snd_cwnd (socks st tp) < 4294967295"
  shows "1 \<le> snd_cwnd (socks (snd (mptcp_cmtrpv2_slow_start st tp acked)) tp)"
  using assms by (simp add: slow_start_state Let_def word_succ_positive)

text \<open>
  Claim C8, as the code has it. For every subflow whose window is at least one segment
  and below the largest \<open>u32\<close> value \<open>2^32 - 1\<close>, the window is still at least one
  segment after a growth call: after the slow-start engine, and after the dispatcher
  \<open>mptcp_cmtrpv2_cong_avoid\<close> on a multipath subflow, whichever branch it takes. (The
  congestion-avoidance branch tests the clamp before it increments, so it needs no upper
  bound: \<open>cong_avoid_window_positive\<close>.)
\<close>

theorem growth_keeps_window_positive:
  assumes "1 \<le> snd_cwnd (socks st sk)" and "snd_cwnd (socks st sk) < 4294967295"
  shows "1 \<le> snd_cwnd (socks (snd (mptcp_cmtrpv2_slow_start st sk acked)) sk)
         \<and> (mpc (socks st sk)
              \<longrightarrow> 1 \<le> snd_cwnd (socks (mptcp_cmtrpv2_cong_avoid R st sk ack acked) sk))"
proof -
  have ss: "1 \<le> snd_cwnd (socks (snd (mptcp_cmtrpv2_slow_start st sk acked)) sk)"
    using assms by (rule slow_start_window_positive)
  have ca: "1 \<le> snd_cwnd (socks (mptcp_cmtrpv2_cong_avoid R st sk ack acked) sk)"
    if m: "mpc (socks st sk)"
  proof (cases "cwnd_limited (socks st sk)")
    case False
    then show ?thesis using m assms(1) by (simp add: mptcp_cmtrpv2_cong_avoid_def)
  next
    case lim: True
    show ?thesis
    proof (cases "snd_cwnd (socks st sk) \<le> snd_ssthresh (socks st sk)")
      case True
      then show ?thesis using m lim ss by (simp add: mptcp_cmtrpv2_cong_avoid_def)
    next
      case False
      then have "snd_ssthresh (socks st sk) < snd_cwnd (socks st sk)" by simp
      with m lim show ?thesis using assms(1) by (rule cong_avoid_window_positive)
    qed
  qed
  show ?thesis using ss ca by blast
qed

text \<open>
  With the accumulator at 1459, slow start on subflow 5 grows the window from 20 to 21;
  subflow 2 is in congestion avoidance with window 10.
\<close>

theorem growth_keeps_window_positive_witness:
  "1 \<le> snd_cwnd (socks full_accumulator 5) \<and> snd_cwnd (socks full_accumulator 5) < 4294967295
   \<and> mpc (socks full_accumulator 5) \<and> snd_cwnd (socks full_accumulator 5) = 20
   \<and> snd_cwnd (socks (snd (mptcp_cmtrpv2_slow_start full_accumulator 5 1)) 5) = 21
   \<and> 1 \<le> snd_cwnd (socks (snd (mptcp_cmtrpv2_slow_start full_accumulator 5 1)) 5)
   \<and> (\<forall>R. 1 \<le> snd_cwnd (socks (mptcp_cmtrpv2_cong_avoid R full_accumulator 5 0 1) 5))
   \<and> 1 \<le> snd_cwnd (socks full_accumulator 2) \<and> snd_cwnd (socks full_accumulator 2) < 4294967295
   \<and> mpc (socks full_accumulator 2)
   \<and> snd_ssthresh (socks full_accumulator 2) < snd_cwnd (socks full_accumulator 2)
   \<and> (\<forall>R. 1 \<le> snd_cwnd (socks (mptcp_cmtrpv2_cong_avoid R full_accumulator 2 0 1) 2))"
proof -
  have a: "1 \<le> snd_cwnd (socks full_accumulator 5)"
      "snd_cwnd (socks full_accumulator 5) < 4294967295"
      "mpc (socks full_accumulator 5)" "snd_cwnd (socks full_accumulator 5) = 20"
    by (simp_all add: full_accumulator_def state_defs)
  have b: "1 \<le> snd_cwnd (socks full_accumulator 2)"
      "snd_cwnd (socks full_accumulator 2) < 4294967295"
      "mpc (socks full_accumulator 2)"
      "snd_ssthresh (socks full_accumulator 2) < snd_cwnd (socks full_accumulator 2)"
    by (simp_all add: full_accumulator_def state_defs)
  have v: "snd_cwnd (socks (snd (mptcp_cmtrpv2_slow_start full_accumulator 5 1)) 5) = 21"
    by (simp add: full_accumulator_def state_defs model_defs)
  from growth_keeps_window_positive[OF a(1,2)] growth_keeps_window_positive[OF b(1,2)] a b v
  show ?thesis by simp
qed

text \<open>
  The claim as written fails at the one window the bound excludes. In \<open>window_at_max\<close>
  subflow 5 is a window-limited multipath subflow in slow start with window, threshold
  and clamp \<open>4294967295\<close>; the ratio is 1, the accumulator goes from 1459 to 1460, and the
  \<open>u32\<close> increment of the slow-start engine, which has no clamp test, leaves a window
  of 0.
\<close>

theorem growth_keeps_window_positive_counterexample:
  "mpc (socks window_at_max 5) \<and> cwnd_limited (socks window_at_max 5)
   \<and> 1 \<le> snd_cwnd (socks window_at_max 5)
   \<and> snd_cwnd (socks window_at_max 5) = 4294967295
   \<and> snd_cwnd (socks window_at_max 5) \<le> snd_ssthresh (socks window_at_max 5)
   \<and> snd_cwnd (socks window_at_max 5) \<le> snd_cwnd_clamp (socks window_at_max 5)
   \<and> snd_cwnd (socks (snd (mptcp_cmtrpv2_slow_start window_at_max 5 1)) 5) = 0
   \<and> (\<forall>R. snd_cwnd (socks (mptcp_cmtrpv2_cong_avoid R window_at_max 5 0 1) 5) = 0)"
  by (simp add: window_at_max_def state_defs model_defs)

subsection \<open>A defect\<close>

text \<open>
  Claim C1. The claim asks that growth on one connection never change the accumulator
  another connection observes. The accumulator is the file-level \<open>static int snd_buffer\<close>,
  one cell for all connections, while the ratio is kept per connection in the meta
  socket. In \<open>two_connections\<close> a congestion-avoidance call on subflow 2 of connection A
  moves the accumulator from 0 to 1043 and touches no socket of connection B. A growth
  call on subflow 5 of connection B alone leaves its window at 20 and the accumulator at
  462; after the call on connection A the same call grows the window to 21 and leaves the
  accumulator at 45.
\<close>

theorem accumulator_shared_between_connections:
  "snd_buffer two_connections = 0
   \<and> (\<forall>R. snd_buffer (mptcp_cmtrpv2_cong_avoid R two_connections 2 0 1) = 1043
         \<and> socks (mptcp_cmtrpv2_cong_avoid R two_connections 2 0 1) 4 = socks two_connections 4
         \<and> socks (mptcp_cmtrpv2_cong_avoid R two_connections 2 0 1) 5 = socks two_connections 5
         \<and> snd_cwnd (socks (mptcp_cmtrpv2_cong_avoid R two_connections 5 0 1) 5) = 20
         \<and> snd_buffer (mptcp_cmtrpv2_cong_avoid R two_connections 5 0 1) = 462
         \<and> snd_cwnd (socks (mptcp_cmtrpv2_cong_avoid R
               (mptcp_cmtrpv2_cong_avoid R two_connections 2 0 1) 5 0 1) 5) = 21
         \<and> snd_buffer (mptcp_cmtrpv2_cong_avoid R
               (mptcp_cmtrpv2_cong_avoid R two_connections 2 0 1) 5 0 1) = 45)"
  by (simp add: state_defs model_defs)

end
